theory Spec2Isabelle
  imports Main
begin

section \<open>Values exchanged with the backends\<close>

text \<open>
  The module \<open>app/modules/plex/__init__.py\<close> is a gateway in front of a set of named
  Plex connections. It never looks inside most of the values it hands on, so those are
  kept opaque here. The schema classes themselves live outside the two source files.
\<close>

text \<open>Modelled from the spec: \<open>MediaType\<close>, of which the spec names \<open>movie|tv\<close>.\<close>

datatype media_type = MOVIE | TV

text \<open>
  Modelled from the spec: \<open>MediaInfo\<close>, \<open>{title, originalTitle, year, tmdbId, type}\<close>.
  The field \<open>type\<close> is called \<open>mtype\<close> here.
\<close>

record media_info =
  mtype :: media_type
  title :: string
  original_title :: string
  year :: string
  tmdb_id :: "int option"

text \<open>
  Modelled from the spec: \<open>MediaServerItem\<close>. The gateway reads its \<open>item_id\<close> only;
  the rest of the item is carried along as \<open>item_title\<close>.
\<close>

record media_server_item =
  item_id :: "string option"
  item_title :: string

text \<open>A season map: season number to the episode numbers present, in backend order.\<close>

type_synonym seasons = "(int \<times> int list) list"

text \<open>
  Modelled from the spec: \<open>ExistMediaInfo\<close>,
  \<open>{type, server, itemId, seasons}\<close>. The movie branch of the source leaves
  \<open>seasons\<close> at its default, written \<open>None\<close> here.
\<close>

record exist_media_info =
  exist_type :: media_type
  exist_seasons :: "seasons option"
  exist_server :: string
  exist_itemid :: "string option"

text \<open>Values the gateway only passes through.\<close>

type_synonym body = string
type_synonym webhook_event_info = string
type_synonym statistic = nat
type_synonym media_server_library = string
type_synonym media_server_play_item = string

section \<open>Python truth values\<close>

text \<open>
  \<open>if x:\<close> on an optional string holds for a non-empty string, on an optional list
  or dict for a non-empty one. On an optional object it holds for any object, which is
  written as a case distinction on \<open>None\<close> and \<open>Some\<close> where it occurs.
\<close>

fun py_bool_str :: "string option \<Rightarrow> bool" where
  "py_bool_str None = False"
| "py_bool_str (Some s) = (s \<noteq> [])"

fun py_bool_list :: "'a list option \<Rightarrow> bool" where
  "py_bool_list None = False"
| "py_bool_list (Some xs) = (xs \<noteq> [])"

section \<open>The backend connection\<close>

text \<open>
  The class \<open>Plex\<close> (\<open>app/modules/plex/plex.py\<close>) is not among the source files. A
  connection is therefore a record of its methods, each a function of the outside
  world \<open>'w\<close> (the remote servers and the connection objects' own fields) that returns
  an answer and the world after the call. Nothing is assumed about how an answer
  depends on the world. Methods return their failures as \<open>None\<close>, as the gateway's own
  checks (\<open>if not movies\<close>, \<open>if result\<close>) expect.
\<close>

record 'w plex =
  is_inactive :: "'w \<Rightarrow> bool \<times> 'w"
  reconnect :: "'w \<Rightarrow> unit \<times> 'w"
  get_librarys :: "bool option \<Rightarrow> 'w \<Rightarrow> media_server_library list option \<times> 'w"
  get_iteminfo :: "string \<Rightarrow> 'w \<Rightarrow> media_server_item option \<times> 'w"
  get_movies ::
    "string \<Rightarrow> string \<Rightarrow> string \<Rightarrow> int option \<Rightarrow> 'w \<Rightarrow> media_server_item list option \<times> 'w"
  get_tv_episodes ::
    "string option \<Rightarrow> string option \<Rightarrow> string option \<Rightarrow> int option \<Rightarrow> string option
       \<Rightarrow> 'w \<Rightarrow> (string option \<times> seasons option) \<times> 'w"
  get_webhook_message :: "body \<Rightarrow> 'w \<Rightarrow> webhook_event_info option \<times> 'w"
  get_medias_count :: "'w \<Rightarrow> statistic option \<times> 'w"
  get_items :: "string \<Rightarrow> int \<Rightarrow> int \<Rightarrow> 'w \<Rightarrow> media_server_item list option \<times> 'w"
  get_resume :: "int \<Rightarrow> 'w \<Rightarrow> media_server_play_item list option \<times> 'w"
  get_latest :: "int \<Rightarrow> 'w \<Rightarrow> media_server_play_item list option \<times> 'w"
  get_play_url :: "string \<Rightarrow> 'w \<Rightarrow> string option \<times> 'w"

text \<open>
  To speak about which backend calls an operation makes, every call is also written to
  a journal, in the order of the calls.
\<close>

datatype call =
    IsInactive
  | Reconnect
  | GetLibrarys "bool option"
  | GetIteminfo string
  | GetMovies string string string "int option"
  | GetTvEpisodes "string option" "string option" "string option" "int option" "string option"
  | GetWebhookMessage body
  | GetMediasCount
  | GetItems string int int
  | GetResume int
  | GetLatest int
  | GetPlayUrl string

type_synonym 'w st = "'w \<times> call list"

definition invoke :: "call \<Rightarrow> ('w \<Rightarrow> 'a \<times> 'w) \<Rightarrow> 'w st \<Rightarrow> 'a \<times> 'w st" where
  "invoke c f st = (case f (fst st) of (r, w') \<Rightarrow> (r, (w', snd st @ [c])))"

section \<open>The registry\<close>

text \<open>Modelled from the spec: \<open>MediaServerConf\<close>, of which the gateway reads name and type.\<close>

record media_server_conf =
  conf_name :: string
  conf_type :: string

text \<open>
  \<open>self._instances\<close> and \<open>self._configs\<close> are insertion-ordered dicts keyed by name:
  association lists, in insertion order.
\<close>

record 'w plex_module =
  instances :: "(string \<times> 'w plex) list"
  configs :: "(string \<times> media_server_conf) list"

text \<open>
  Modelled from the spec: \<open>get_instance\<close> of the base class \<open>_MediaServerBase\<close>, which is
  not among the source files. The spec gives \<open>get(name) -> handle|absent\<close>: a lookup by
  name in the registry. The name is optional because \<open>mediaserver_librarys\<close> may pass
  \<open>None\<close>.
\<close>

definition get_instance :: "'w plex_module \<Rightarrow> string option \<Rightarrow> 'w plex option" where
  "get_instance m name = (case name of None \<Rightarrow> None | Some n \<Rightarrow> map_of (instances m) n)"

text \<open>
  Modelled from the spec: \<open>get_config\<close> of the base class, called as
  \<open>get_config(source, 'plex')\<close>: the configuration stored under the name, if its type
  is the one asked for.
\<close>

definition get_config :: "'w plex_module \<Rightarrow> string \<Rightarrow> string \<Rightarrow> media_server_conf option" where
  "get_config m name ctype =
     (case map_of (configs m) name of
        None \<Rightarrow> None
      | Some conf \<Rightarrow> if conf_type conf = ctype then Some conf else None)"

section \<open>Statistics: \<open>media_statistic\<close>\<close>

text \<open>
  \<^verbatim>\<open>
  media_statistics = []
  for server in servers:
      media_statistic = server.get_medias_count()
      if not media_statistics:
          continue
      media_statistics.append(media_statistic)
  return media_statistics
  \<close>
  The guard reads the list \<open>media_statistics\<close>, not the count \<open>media_statistic\<close> just
  fetched.
\<close>

fun media_statistic_loop ::
  "'w plex list \<Rightarrow> statistic option list \<Rightarrow> 'w st \<Rightarrow> statistic option list \<times> 'w st" where
  "media_statistic_loop [] media_statistics st = (media_statistics, st)"
| "media_statistic_loop (server # rest) media_statistics st =
     (case invoke GetMediasCount (get_medias_count server) st of
        (media_statistic, st') \<Rightarrow>
          if media_statistics = [] then media_statistic_loop rest media_statistics st'
          else media_statistic_loop rest (media_statistics @ [media_statistic]) st')"

definition media_statistic ::
  "'w plex_module \<Rightarrow> string option \<Rightarrow> 'w st \<Rightarrow> statistic option list option \<times> 'w st" where
  "media_statistic m server st =
     (if py_bool_str server then
        (case get_instance m server of
           None \<Rightarrow> (None, st)
         | Some srv \<Rightarrow>
             (case media_statistic_loop [srv] [] st of (r, st') \<Rightarrow> (Some r, st')))
      else
        (case media_statistic_loop (map snd (instances m)) [] st of (r, st') \<Rightarrow> (Some r, st')))"

section \<open>Connectivity test: \<open>test\<close>\<close>





section \<open>Webhook routing: \<open>webhook_parser\<close>\<close>

text \<open>
  The loop of the branch without a source hint, over \<open>self._configs.values()\<close>:
  \<^verbatim>\<open>
  for conf in self._configs.values():
      if conf.type != "plex":
          continue
      server = self.get_instance(conf.name)
      if server:
          result = server.get_webhook_message(body)
          if result:
              return result
  return None
  \<close>
\<close>

fun webhook_loop ::
  "'w plex_module \<Rightarrow> media_server_conf list \<Rightarrow> body \<Rightarrow> 'w st
     \<Rightarrow> webhook_event_info option \<times> 'w st" where
  "webhook_loop m [] body st = (None, st)"
| "webhook_loop m (conf # rest) body st =
     (if conf_type conf \<noteq> ''plex'' then webhook_loop m rest body st
      else
        (case get_instance m (Some (conf_name conf)) of
           None \<Rightarrow> webhook_loop m rest body st
         | Some server \<Rightarrow>
             (case invoke (GetWebhookMessage body) (get_webhook_message server body) st of
                (Some result, st') \<Rightarrow> (Some result, st')
              | (None, st') \<Rightarrow> webhook_loop m rest body st')))"

text \<open>
  \<open>args\<close> is any object with \<open>get\<close>: a partial map from parameter names to strings.
  \<open>form\<close> is not used by the source.
\<close>

definition webhook_parser ::
  "'w plex_module \<Rightarrow> body \<Rightarrow> 'f \<Rightarrow> (string \<rightharpoonup> string) \<Rightarrow> 'w st
     \<Rightarrow> webhook_event_info option \<times> 'w st" where
  "webhook_parser m body form args st =
     (let source = args ''source'' in
      if py_bool_str source then
        (case get_config m (the source) ''plex'' of
           None \<Rightarrow> (None, st)
         | Some server_config \<Rightarrow>
             (case get_instance m source of
                None \<Rightarrow> (None, st)
              | Some server \<Rightarrow>
                  invoke (GetWebhookMessage body) (get_webhook_message server body) st))
      else webhook_loop m (map snd (configs m)) body st)"

section \<open>Existence lookup: \<open>media_exists\<close>\<close>

text \<open>
  The body of the loop for one instance. \<open>Some r\<close> is \<open>return r\<close>, \<open>None\<close> is
  \<open>continue\<close>. The calls to the logger are left out.
\<close>

definition media_exists_in ::
  "string \<Rightarrow> 'w plex \<Rightarrow> media_info \<Rightarrow> string option \<Rightarrow> 'w st
     \<Rightarrow> exist_media_info option \<times> 'w st" where
  "media_exists_in name server mediainfo itemid st =
     (if mtype mediainfo = MOVIE then
        (case (if py_bool_str itemid
               then invoke (GetIteminfo (the itemid)) (get_iteminfo server (the itemid)) st
               else (None, st)) of
           (Some movie, st1) \<Rightarrow>
             (Some \<lparr>exist_type = MOVIE, exist_seasons = None, exist_server = name,
                    exist_itemid = item_id movie\<rparr>, st1)
         | (None, st1) \<Rightarrow>
             (case invoke
                     (GetMovies (title mediainfo) (original_title mediainfo) (year mediainfo)
                        (tmdb_id mediainfo))
                     (get_movies server (title mediainfo) (original_title mediainfo)
                        (year mediainfo) (tmdb_id mediainfo)) st1 of
                (movies, st2) \<Rightarrow>
                  (case movies of
                     Some (first_movie # others) \<Rightarrow>
                       (Some \<lparr>exist_type = MOVIE, exist_seasons = None, exist_server = name,
                              exist_itemid = item_id first_movie\<rparr>, st2)
                   | _ \<Rightarrow> (None, st2))))
      else
        (case invoke
                (GetTvEpisodes (Some (title mediainfo)) (Some (original_title mediainfo))
                   (Some (year mediainfo)) (tmdb_id mediainfo) itemid)
                (get_tv_episodes server (Some (title mediainfo))
                   (Some (original_title mediainfo)) (Some (year mediainfo))
                   (tmdb_id mediainfo) itemid) st of
           ((tv_item_id, tvs), st1) \<Rightarrow>
             if \<not> py_bool_list tvs then (None, st1)
             else (Some \<lparr>exist_type = TV, exist_seasons = tvs, exist_server = name,
                         exist_itemid = tv_item_id\<rparr>, st1)))"

fun media_exists_loop ::
  "(string \<times> 'w plex) list \<Rightarrow> media_info \<Rightarrow> string option \<Rightarrow> 'w st
     \<Rightarrow> exist_media_info option \<times> 'w st" where
  "media_exists_loop [] mediainfo itemid st = (None, st)"
| "media_exists_loop ((name, server) # rest) mediainfo itemid st =
     (case media_exists_in name server mediainfo itemid st of
        (Some r, st') \<Rightarrow> (Some r, st')
      | (None, st') \<Rightarrow> media_exists_loop rest mediainfo itemid st')"

definition media_exists ::
  "'w plex_module \<Rightarrow> media_info \<Rightarrow> string option \<Rightarrow> 'w st
     \<Rightarrow> exist_media_info option \<times> 'w st" where
  "media_exists m mediainfo itemid st = media_exists_loop (instances m) mediainfo itemid st"

section \<open>Single-instance operations\<close>

definition mediaserver_librarys ::
  "'w plex_module \<Rightarrow> string option \<Rightarrow> bool \<Rightarrow> 'w st
     \<Rightarrow> media_server_library list option \<times> 'w st" where
  "mediaserver_librarys m server hidden st =
     (case get_instance m server of
        Some srv \<Rightarrow> invoke (GetLibrarys (Some hidden)) (get_librarys srv (Some hidden)) st
      | None \<Rightarrow> (None, st))"

definition mediaserver_items ::
  "'w plex_module \<Rightarrow> string \<Rightarrow> string \<Rightarrow> int \<Rightarrow> int \<Rightarrow> 'w st
     \<Rightarrow> media_server_item list option \<times> 'w st" where
  "mediaserver_items m server library_id start_index limit st =
     (case get_instance m (Some server) of
        Some srv \<Rightarrow>
          invoke (GetItems library_id start_index limit)
            (get_items srv library_id start_index limit) st
      | None \<Rightarrow> (None, st))"

definition mediaserver_iteminfo ::
  "'w plex_module \<Rightarrow> string \<Rightarrow> string \<Rightarrow> 'w st \<Rightarrow> media_server_item option \<times> 'w st" where
  "mediaserver_iteminfo m server itemid st =
     (case get_instance m (Some server) of
        Some srv \<Rightarrow> invoke (GetIteminfo itemid) (get_iteminfo srv itemid) st
      | None \<Rightarrow> (None, st))"

text \<open>Modelled from the spec: \<open>MediaServerSeasonInfo\<close>, a season and its episodes.\<close>

record media_server_season_info =
  season :: int
  episodes :: "int list"

definition mediaserver_tv_episodes ::
  "'w plex_module \<Rightarrow> string \<Rightarrow> string \<Rightarrow> 'w st
     \<Rightarrow> media_server_season_info list option \<times> 'w st" where
  "mediaserver_tv_episodes m server itemid st =
     (case get_instance m (Some server) of
        None \<Rightarrow> (None, st)
      | Some srv \<Rightarrow>
          (case invoke (GetTvEpisodes None None None None (Some itemid))
                  (get_tv_episodes srv None None None None (Some itemid)) st of
             ((unused, seasoninfo), st') \<Rightarrow>
               if \<not> py_bool_list seasoninfo then (Some [], st')
               else
                 (Some (map (\<lambda>(s, es). \<lparr>season = s, episodes = es\<rparr>) (the seasoninfo)),
                  st')))"

definition mediaserver_playing ::
  "'w plex_module \<Rightarrow> string \<Rightarrow> int \<Rightarrow> 'w st \<Rightarrow> media_server_play_item list option \<times> 'w st" where
  "mediaserver_playing m server count st =
     (case get_instance m (Some server) of
        None \<Rightarrow> (Some [], st)
      | Some srv \<Rightarrow> invoke (GetResume count) (get_resume srv count) st)"

definition mediaserver_latest ::
  "'w plex_module \<Rightarrow> string \<Rightarrow> int \<Rightarrow> 'w st \<Rightarrow> media_server_play_item list option \<times> 'w st" where
  "mediaserver_latest m server count st =
     (case get_instance m (Some server) of
        None \<Rightarrow> (Some [], st)
      | Some srv \<Rightarrow> invoke (GetLatest count) (get_latest srv count) st)"

definition mediaserver_play_url ::
  "'w plex_module \<Rightarrow> string \<Rightarrow> string \<Rightarrow> 'w st \<Rightarrow> string option \<times> 'w st" where
  "mediaserver_play_url m server itemid st =
     (case get_instance m (Some server) of
        None \<Rightarrow> (None, st)
      | Some srv \<Rightarrow> invoke (GetPlayUrl itemid) (get_play_url srv itemid) st)"

section \<open>The pre-validator of \<open>UserBase\<close>: \<open>parse_json_fields\<close>\<close>

text \<open>
  The values a field may be given before validation: those a JSON text or a database
  column gives. A float is its mantissa and binary exponent, an infinity or not a number;
  the keys of a dict are strings, as those of a JSON object are.
\<close>

datatype pyfloat = Finite int int | Infinity | NegInfinity | NaN

datatype pyval =
    PyNone
  | PyBool bool
  | PyInt int
  | PyFloat pyfloat
  | PyStr string
  | PyList "pyval list"
  | PyDict "(string \<times> pyval) list"

text \<open>Python's truth value of a float: false for zero only.\<close>

fun float_bool :: "pyfloat \<Rightarrow> bool" where
  "float_bool (Finite mantissa exponent) = (mantissa \<noteq> 0)"
| "float_bool f = True"

fun py_bool :: "pyval \<Rightarrow> bool" where
  "py_bool PyNone = False"
| "py_bool (PyBool b) = b"
| "py_bool (PyInt i) = (i \<noteq> 0)"
| "py_bool (PyFloat f) = float_bool f"
| "py_bool (PyStr s) = (s \<noteq> [])"
| "py_bool (PyList xs) = (xs \<noteq> [])"
| "py_bool (PyDict kvs) = (kvs \<noteq> [])"

fun is_str :: "pyval \<Rightarrow> bool" where
  "is_str (PyStr s) = True"
| "is_str v = False"

fun is_dict :: "pyval \<Rightarrow> bool" where
  "is_dict (PyDict kvs) = True"
| "is_dict v = False"

text \<open>
  The exceptions \<open>json.loads\<close> may raise on a string: \<open>JSONDecodeError\<close> for a text
  that is not JSON, \<open>RecursionError\<close> for a text nested too deeply, \<open>ValueError\<close> for an
  integer literal of too many digits.
\<close>

datatype py_error = JSONDecodeError | RecursionError | ValueError

text \<open>
  \<open>json.loads\<close> belongs to the standard library and is a parameter: on a string it
  returns the parsed value or raises. The validator catches \<open>JSONDecodeError\<close> only;
  every other exception leaves the validator.
  \<^verbatim>\<open>
  if value:
      if isinstance(value, str):
          try:
              return json.loads(value)
          except json.JSONDecodeError:
              return {}
      return value
  return {}
  \<close>
\<close>

definition parse_json_fields ::
  "(string \<Rightarrow> py_error + pyval) \<Rightarrow> pyval \<Rightarrow> py_error + pyval" where
  "parse_json_fields json_loads val =
     (if py_bool val then
        (case val of
           PyStr s \<Rightarrow>
             (case json_loads s of
                Inr parsed \<Rightarrow> Inr parsed
              | Inl JSONDecodeError \<Rightarrow> Inr (PyDict [])
              | Inl e \<Rightarrow> Inl e)
         | _ \<Rightarrow> Inr val)
      else Inr (PyDict []))"

section \<open>A small registry for the examples\<close>

text \<open>
  The world of the examples is the list of the names of the backends whose connection is
  live. A backend \<open>demo_plex name reachable movies tvs payloads count\<close> is inactive
  while its name is not in that list, reconnects only if it is reachable, lists one
  library while it is connected, finds a movie by id or by title among \<open>movies\<close>,
  reports the season map \<open>tvs\<close>, decodes the payloads in \<open>payloads\<close> and counts \<open>count\<close>.
\<close>

definition demo_plex ::
  "string \<Rightarrow> bool \<Rightarrow> media_server_item list \<Rightarrow> seasons \<Rightarrow> body list \<Rightarrow> statistic option
     \<Rightarrow> string list plex" where
  "demo_plex name reachable movies tvs payloads count =
     \<lparr>is_inactive = (\<lambda>w. (name \<notin> set w, w)),
      reconnect = (\<lambda>w. ((), if reachable then name # w else w)),
      get_librarys = (\<lambda>hidden w. (if name \<in> set w then Some [''Movies''] else None, w)),
      get_iteminfo = (\<lambda>i w. (find (\<lambda>it. item_id it = Some i) movies, w)),
      get_movies = (\<lambda>t ot y tm w. (Some (filter (\<lambda>it. item_title it = t) movies), w)),
      get_tv_episodes =
        (\<lambda>t ot y tm i w. (if tvs = [] then (None, None) else (Some name, Some tvs), w)),
      get_webhook_message =
        (\<lambda>b w. (if b \<in> set payloads then Some (name @ '':'' @ b) else None, w)),
      get_medias_count = (\<lambda>w. (count, w)),
      get_items = (\<lambda>l s n w. (Some movies, w)),
      get_resume = (\<lambda>n w. (Some [], w)),
      get_latest = (\<lambda>n w. (Some [], w)),
      get_play_url = (\<lambda>i w. (Some (name @ ''/'' @ i), w))\<rparr>"

text \<open>
  The registry of the spec's end-to-end example: \<open>A\<close> holds nothing, \<open>B\<close> holds the
  movie "Nightfall" (twice) and one show; \<open>C\<close> cannot be reached.
\<close>

definition server_A :: "string list plex" where
  "server_A = demo_plex ''A'' True [] [] [] (Some 3)"

definition server_B :: "string list plex" where
  "server_B =
     demo_plex ''B'' True
       [\<lparr>item_id = Some ''b17'', item_title = ''Nightfall''\<rparr>,
        \<lparr>item_id = Some ''b18'', item_title = ''Nightfall''\<rparr>]
       [(1, [1, 2]), (2, [1])] [''play''] (Some 5)"

definition server_C :: "string list plex" where
  "server_C = demo_plex ''C'' False [] [] [] None"

definition demo_module :: "string list plex_module" where
  "demo_module =
     \<lparr>instances = [(''A'', server_A), (''B'', server_B)],
      configs =
        [(''A'', \<lparr>conf_name = ''A'', conf_type = ''plex''\<rparr>),
         (''B'', \<lparr>conf_name = ''B'', conf_type = ''plex''\<rparr>)]\<rparr>"

definition nightfall :: media_info where
  "nightfall =
     \<lparr>mtype = MOVIE, title = ''Nightfall'', original_title = ''Nightfall'', year = ''2021'',
      tmdb_id = Some 555\<rparr>"

text \<open>A film that no backend of the examples holds.\<close>

definition unknown_film :: media_info where
  "unknown_film =
     \<lparr>mtype = MOVIE, title = ''Daybreak'', original_title = ''Daybreak'', year = ''1999'',
      tmdb_id = None\<rparr>"

text \<open>A show; in the examples \<open>B\<close> holds two of its seasons.\<close>

definition the_show :: media_info where
  "the_show =
     \<lparr>mtype = TV, title = ''Orbit'', original_title = ''Orbit'', year = ''2020'',
      tmdb_id = Some 77\<rparr>"


text \<open>
  Two texts on which \<open>json.loads\<close> raises something else than \<open>JSONDecodeError\<close>: a
  hundred thousand opening brackets, and an integer literal of five thousand digits.
\<close>

definition deep_text :: string where
  "deep_text = replicate 100000 (CHR ''['')"

definition long_number :: string where
  "long_number = replicate 5000 (CHR ''1'')"

text \<open>
  The outcome of \<open>json.loads\<close> on the texts the examples use: \<open>{}\<close>, \<open>[1]\<close> and \<open>1.5\<close>
  parse, \<open>{\<close> is not JSON, the two long texts raise as said. Every other text is answered
  like one that is not JSON, and no example consults it there.
\<close>

definition demo_json_loads :: "string \<Rightarrow> py_error + pyval" where
  "demo_json_loads s =
     (if s = ''{}'' then Inr (PyDict [])
      else if s = ''[1]'' then Inr (PyList [PyInt 1])
      else if s = ''1.5'' then Inr (PyFloat (Finite 3 (- 1)))
      else if s = deep_text then Inl RecursionError
      else if s = long_number then Inl ValueError
      else Inl JSONDecodeError)"

section \<open>Auxiliary facts\<close>

lemmas demo_defs =
  demo_module_def server_A_def server_B_def server_C_def demo_plex_def nightfall_def

lemma get_instance_absent:
  "name \<notin> fst ` set (instances m) \<Longrightarrow> get_instance m (Some name) = None"
  by (simp add: get_instance_def map_of_eq_None_iff)

lemma invoke_eq:
  "invoke c f st = (r, st2) \<longleftrightarrow> (\<exists>w. f (fst st) = (r, w) \<and> st2 = (w, snd st @ [c]))"
  by (auto simp: invoke_def split: prod.splits)

subsection \<open>The loop of \<open>media_exists\<close>\<close>

lemma media_exists_loop_skip:
  "media_exists_loop pre mi itemid st = (None, st') \<Longrightarrow>
   media_exists_loop (pre @ rest) mi itemid st = media_exists_loop rest mi itemid st'"
  by (induction pre arbitrary: st) (auto split: prod.splits option.splits)

lemma media_exists_loop_hit:
  "media_exists_loop xs mi itemid st = (Some r, st2) \<Longrightarrow>
   \<exists>pre name server post st'.
     xs = pre @ (name, server) # post \<and>
     media_exists_loop pre mi itemid st = (None, st') \<and>
     media_exists_in name server mi itemid st' = (Some r, st2)"
proof (induction xs arbitrary: st)
  case Nil
  then show ?case by simp
next
  case (Cons x xs)
  obtain n s where x: "x = (n, s)" by (cases x)
  obtain a st1 where body: "media_exists_in n s mi itemid st = (a, st1)"
    by (cases "media_exists_in n s mi itemid st")
  show ?case
  proof (cases a)
    case None
    with Cons.prems x body have "media_exists_loop xs mi itemid st1 = (Some r, st2)"
      by simp
    from Cons.IH [OF this] obtain pre name server post st' where
      split: "xs = pre @ (name, server) # post"
      and skipped: "media_exists_loop pre mi itemid st1 = (None, st')"
      and hit: "media_exists_in name server mi itemid st' = (Some r, st2)"
      by blast
    from split x have "x # xs = (x # pre) @ (name, server) # post" by simp
    moreover from skipped x body None
    have "media_exists_loop (x # pre) mi itemid st = (None, st')" by simp
    ultimately show ?thesis using hit by blast
  next
    case (Some r')
    with Cons.prems x body have "media_exists_in n s mi itemid st = (Some r, st2)"
      by simp
    moreover have "x # xs = [] @ (n, s) # xs" using x by simp
    moreover have "media_exists_loop [] mi itemid st = (None, st)" by simp
    ultimately show ?thesis by blast
  qed
qed

lemma media_exists_loop_Some_iff:
  "media_exists_loop xs mi itemid st = (Some r, st2) \<longleftrightarrow>
     (\<exists>pre name server post st'.
        xs = pre @ (name, server) # post \<and>
        media_exists_loop pre mi itemid st = (None, st') \<and>
        media_exists_in name server mi itemid st' = (Some r, st2))"
proof
  assume "media_exists_loop xs mi itemid st = (Some r, st2)"
  then show "\<exists>pre name server post st'.
        xs = pre @ (name, server) # post \<and>
        media_exists_loop pre mi itemid st = (None, st') \<and>
        media_exists_in name server mi itemid st' = (Some r, st2)"
    by (rule media_exists_loop_hit)
next
  assume "\<exists>pre name server post st'.
        xs = pre @ (name, server) # post \<and>
        media_exists_loop pre mi itemid st = (None, st') \<and>
        media_exists_in name server mi itemid st' = (Some r, st2)"
  then obtain pre name server post st' where
    split: "xs = pre @ (name, server) # post"
    and skipped: "media_exists_loop pre mi itemid st = (None, st')"
    and hit: "media_exists_in name server mi itemid st' = (Some r, st2)"
    by blast
  from media_exists_loop_skip [OF skipped, of "(name, server) # post"] split hit
  show "media_exists_loop xs mi itemid st = (Some r, st2)" by simp
qed

lemma media_exists_loop_None:
  "(\<And>name server w. (name, server) \<in> set xs \<Longrightarrow>
       fst (media_exists_in name server mi itemid w) = None) \<Longrightarrow>
   fst (media_exists_loop xs mi itemid st) = None"
proof (induction xs arbitrary: st)
  case Nil
  show ?case by simp
next
  case (Cons x xs)
  obtain n s where x: "x = (n, s)" by (cases x)
  obtain a st1 where body: "media_exists_in n s mi itemid st = (a, st1)"
    by (cases "media_exists_in n s mi itemid st")
  from Cons.prems [of n s st] x body have "a = None" by simp
  moreover have "fst (media_exists_loop xs mi itemid st1) = None"
    by (rule Cons.IH) (simp add: Cons.prems)
  ultimately show ?case using x body by simp
qed

lemma media_exists_in_server:
  "media_exists_in name server mi itemid st = (Some r, st') \<Longrightarrow> exist_server r = name"
  by (auto simp: media_exists_in_def split: if_splits prod.splits option.splits list.splits)

text \<open>What one instance answers, read off the answers of its backend.\<close>

lemma media_exists_loop_snoc:
  "media_exists_loop (pre @ [(name, server)]) mi itemid st =
     (case media_exists_loop pre mi itemid st of
        (Some r, st') \<Rightarrow> (Some r, st')
      | (None, st') \<Rightarrow> media_exists_in name server mi itemid st')"
  by (induction pre arbitrary: st) (auto split: prod.splits option.splits)

lemma media_exists_in_tv:
  assumes "mtype mi \<noteq> MOVIE"
    and "get_tv_episodes server (Some (title mi)) (Some (original_title mi))
           (Some (year mi)) (tmdb_id mi) itemid (fst st) = ((tv_id, tvs), w)"
  shows "media_exists_in name server mi itemid st =
     (if py_bool_list tvs
      then Some \<lparr>exist_type = TV, exist_seasons = tvs, exist_server = name,
                  exist_itemid = tv_id\<rparr>
      else None,
      (w, snd st @
            [GetTvEpisodes (Some (title mi)) (Some (original_title mi))
               (Some (year mi)) (tmdb_id mi) itemid]))"
  using assms by (simp add: media_exists_in_def invoke_def)

lemma media_exists_in_by_id:
  assumes "mtype mi = MOVIE" and "itemid = Some i" and "i \<noteq> []"
    and "get_iteminfo server i (fst st) = (Some movie, w)"
  shows "media_exists_in name server mi itemid st =
     (Some \<lparr>exist_type = MOVIE, exist_seasons = None, exist_server = name,
            exist_itemid = item_id movie\<rparr>,
      (w, snd st @ [GetIteminfo i]))"
  using assms by (simp add: media_exists_in_def invoke_def)

lemma media_exists_in_by_title:
  assumes "mtype mi = MOVIE"
    and "\<not> py_bool_str itemid \<and> st1 = st \<or>
         (\<exists>j w1. itemid = Some j \<and> j \<noteq> [] \<and> get_iteminfo server j (fst st) = (None, w1) \<and>
            st1 = (w1, snd st @ [GetIteminfo j]))"
    and "get_movies server (title mi) (original_title mi) (year mi) (tmdb_id mi) (fst st1) =
           (movies, w)"
  shows "media_exists_in name server mi itemid st =
     (case movies of
        Some (hit # others) \<Rightarrow>
          Some \<lparr>exist_type = MOVIE, exist_seasons = None, exist_server = name,
                 exist_itemid = item_id hit\<rparr>
      | _ \<Rightarrow> None,
      (w, snd st1 @ [GetMovies (title mi) (original_title mi) (year mi) (tmdb_id mi)]))"
  using assms
  by (auto simp: media_exists_in_def invoke_def split: option.splits list.splits)

text \<open>The three ways of asking a backend, one of which applies.\<close>

lemma media_exists_in_cases:
  fixes mi :: media_info and server :: "'w plex" and st :: "'w st"
  obtains
    (tv) tv_id tvs w where "mtype mi \<noteq> MOVIE"
      "get_tv_episodes server (Some (title mi)) (Some (original_title mi))
         (Some (year mi)) (tmdb_id mi) itemid (fst st) = ((tv_id, tvs), w)"
  | (by_id) i movie w where "mtype mi = MOVIE" "itemid = Some i" "i \<noteq> []"
      "get_iteminfo server i (fst st) = (Some movie, w)"
  | (by_title) st1 movies w where "mtype mi = MOVIE"
      "\<not> py_bool_str itemid \<and> st1 = st \<or>
       (\<exists>j w1. itemid = Some j \<and> j \<noteq> [] \<and> get_iteminfo server j (fst st) = (None, w1) \<and>
          st1 = (w1, snd st @ [GetIteminfo j]))"
      "get_movies server (title mi) (original_title mi) (year mi) (tmdb_id mi) (fst st1) =
         (movies, w)"
proof (cases "mtype mi = MOVIE")
  case False
  obtain tv_id tvs w where
    "get_tv_episodes server (Some (title mi)) (Some (original_title mi))
       (Some (year mi)) (tmdb_id mi) itemid (fst st) = ((tv_id, tvs), w)"
    by (cases "get_tv_episodes server (Some (title mi)) (Some (original_title mi))
       (Some (year mi)) (tmdb_id mi) itemid (fst st)") auto
  with False show ?thesis by (rule tv)
next
  case True
  show ?thesis
  proof (cases "py_bool_str itemid")
    case False
    obtain movies w where
      "get_movies server (title mi) (original_title mi) (year mi) (tmdb_id mi) (fst st) =
         (movies, w)"
      by (cases "get_movies server (title mi) (original_title mi) (year mi) (tmdb_id mi)
         (fst st)")
    with True False show ?thesis by (intro by_title [of st movies w]) simp_all
  next
    case supplied: True
    then obtain i where i: "itemid = Some i" "i \<noteq> []"
      by (cases itemid) simp_all
    obtain found w1 where asked: "get_iteminfo server i (fst st) = (found, w1)"
      by (cases "get_iteminfo server i (fst st)")
    show ?thesis
    proof (cases found)
      case (Some movie)
      with True i asked show ?thesis by (intro by_id [of i movie w1]) simp_all
    next
      case None
      obtain movies w where
        "get_movies server (title mi) (original_title mi) (year mi) (tmdb_id mi)
           (fst (w1, snd st @ [GetIteminfo i])) = (movies, w)"
        by (cases "get_movies server (title mi) (original_title mi) (year mi) (tmdb_id mi)
           (fst (w1, snd st @ [GetIteminfo i]))")
      with True i asked None show ?thesis
        by (intro by_title [of "(w1, snd st @ [GetIteminfo i])" movies w]) simp_all
    qed
  qed
qed

lemma media_exists_in_Some_iff:
  "media_exists_in name server mi itemid st' = (Some r, st2) \<longleftrightarrow>
     (mtype mi = MOVIE \<and>
        (\<exists>i movie w.
           itemid = Some i \<and> i \<noteq> [] \<and>
           get_iteminfo server i (fst st') = (Some movie, w) \<and>
           r = \<lparr>exist_type = MOVIE, exist_seasons = None, exist_server = name,
                 exist_itemid = item_id movie\<rparr> \<and>
           st2 = (w, snd st' @ [GetIteminfo i])) \<or>
      mtype mi = MOVIE \<and>
        (\<exists>st1 hit others w.
           (\<not> py_bool_str itemid \<and> st1 = st' \<or>
            (\<exists>j w1. itemid = Some j \<and> j \<noteq> [] \<and>
               get_iteminfo server j (fst st') = (None, w1) \<and>
               st1 = (w1, snd st' @ [GetIteminfo j]))) \<and>
           get_movies server (title mi) (original_title mi) (year mi) (tmdb_id mi) (fst st1) =
             (Some (hit # others), w) \<and>
           r = \<lparr>exist_type = MOVIE, exist_seasons = None, exist_server = name,
                 exist_itemid = item_id hit\<rparr> \<and>
           st2 = (w, snd st1 @
                    [GetMovies (title mi) (original_title mi) (year mi) (tmdb_id mi)])) \<or>
      mtype mi \<noteq> MOVIE \<and>
        (\<exists>tv_id tvs w.
           get_tv_episodes server (Some (title mi)) (Some (original_title mi))
             (Some (year mi)) (tmdb_id mi) itemid (fst st') = ((tv_id, tvs), w) \<and>
           py_bool_list tvs \<and>
           r = \<lparr>exist_type = TV, exist_seasons = tvs, exist_server = name,
                 exist_itemid = tv_id\<rparr> \<and>
           st2 = (w, snd st' @
                    [GetTvEpisodes (Some (title mi)) (Some (original_title mi))
                       (Some (year mi)) (tmdb_id mi) itemid])))"
  (is "?lhs \<longleftrightarrow> ?rhs")
proof (cases rule: media_exists_in_cases
    [where mi = mi and server = server and itemid = itemid and st = st'])
  case (tv tv_id tvs w)
  from media_exists_in_tv [OF tv, of name] tv show ?thesis by auto
next
  case (by_id i movie w)
  from media_exists_in_by_id [OF by_id, of name] by_id show ?thesis by auto
next
  case (by_title st1 movies w)
  note run = media_exists_in_by_title [OF by_title, of name]
  have unique: "s = st1"
    if "\<not> py_bool_str itemid \<and> s = st' \<or>
        (\<exists>j w1. itemid = Some j \<and> j \<noteq> [] \<and> get_iteminfo server j (fst st') = (None, w1) \<and>
           s = (w1, snd st' @ [GetIteminfo j]))" for s
    using that by_title(2) by auto
  have no_id: "\<not> (\<exists>i movie v. itemid = Some i \<and> i \<noteq> [] \<and>
      get_iteminfo server i (fst st') = (Some movie, v))"
    using by_title(2) by auto
  show ?thesis
  proof
    assume ?lhs
    with run obtain hit others where "movies = Some (hit # others)"
      and "r = \<lparr>exist_type = MOVIE, exist_seasons = None, exist_server = name,
                 exist_itemid = item_id hit\<rparr>"
      and "st2 = (w, snd st1 @
             [GetMovies (title mi) (original_title mi) (year mi) (tmdb_id mi)])"
      by (cases movies rule: py_bool_list.cases) (auto split: list.splits)
    with by_title show ?rhs by blast
  next
    assume ?rhs
    with by_title(1) no_id obtain s hit others v where
      reached: "\<not> py_bool_str itemid \<and> s = st' \<or>
        (\<exists>j w1. itemid = Some j \<and> j \<noteq> [] \<and> get_iteminfo server j (fst st') = (None, w1) \<and>
           s = (w1, snd st' @ [GetIteminfo j]))"
      and searched: "get_movies server (title mi) (original_title mi) (year mi) (tmdb_id mi)
           (fst s) = (Some (hit # others), v)"
      and r: "r = \<lparr>exist_type = MOVIE, exist_seasons = None, exist_server = name,
                 exist_itemid = item_id hit\<rparr>"
      and st2: "st2 = (v, snd s @
             [GetMovies (title mi) (original_title mi) (year mi) (tmdb_id mi)])"
      by blast
    from unique [OF reached] searched by_title(3)
    have "s = st1" "movies = Some (hit # others)" "v = w"
      by simp_all
    with r st2 run show ?lhs by simp
  qed
qed

lemma media_exists_in_None_iff:
  "media_exists_in name server mi itemid st' = (None, st2) \<longleftrightarrow>
     (mtype mi = MOVIE \<and>
        (\<exists>st1 movies w.
           (\<not> py_bool_str itemid \<and> st1 = st' \<or>
            (\<exists>j w1. itemid = Some j \<and> j \<noteq> [] \<and>
               get_iteminfo server j (fst st') = (None, w1) \<and>
               st1 = (w1, snd st' @ [GetIteminfo j]))) \<and>
           get_movies server (title mi) (original_title mi) (year mi) (tmdb_id mi) (fst st1) =
             (movies, w) \<and>
           \<not> py_bool_list movies \<and>
           st2 = (w, snd st1 @
                    [GetMovies (title mi) (original_title mi) (year mi) (tmdb_id mi)])) \<or>
      mtype mi \<noteq> MOVIE \<and>
        (\<exists>tv_id tvs w.
           get_tv_episodes server (Some (title mi)) (Some (original_title mi))
             (Some (year mi)) (tmdb_id mi) itemid (fst st') = ((tv_id, tvs), w) \<and>
           \<not> py_bool_list tvs \<and>
           st2 = (w, snd st' @
                    [GetTvEpisodes (Some (title mi)) (Some (original_title mi))
                       (Some (year mi)) (tmdb_id mi) itemid])))"
  (is "?lhs \<longleftrightarrow> ?rhs")
proof (cases rule: media_exists_in_cases
    [where mi = mi and server = server and itemid = itemid and st = st'])
  case (tv tv_id tvs w)
  from media_exists_in_tv [OF tv, of name] tv show ?thesis by auto
next
  case (by_id i movie w)
  from media_exists_in_by_id [OF by_id, of name] by_id show ?thesis by auto
next
  case (by_title st1 movies w)
  note run = media_exists_in_by_title [OF by_title, of name]
  have unique: "s = st1"
    if "\<not> py_bool_str itemid \<and> s = st' \<or>
        (\<exists>j w1. itemid = Some j \<and> j \<noteq> [] \<and> get_iteminfo server j (fst st') = (None, w1) \<and>
           s = (w1, snd st' @ [GetIteminfo j]))" for s
    using that by_title(2) by auto
  show ?thesis
  proof
    assume ?lhs
    with run have "\<not> py_bool_list movies"
      and "st2 = (w, snd st1 @
             [GetMovies (title mi) (original_title mi) (year mi) (tmdb_id mi)])"
      by (auto split: option.splits list.splits)
    with by_title show ?rhs by blast
  next
    assume ?rhs
    with by_title(1) obtain s mv v where
      reached: "\<not> py_bool_str itemid \<and> s = st' \<or>
        (\<exists>j w1. itemid = Some j \<and> j \<noteq> [] \<and> get_iteminfo server j (fst st') = (None, w1) \<and>
           s = (w1, snd st' @ [GetIteminfo j]))"
      and searched: "get_movies server (title mi) (original_title mi) (year mi) (tmdb_id mi)
           (fst s) = (mv, v)"
      and miss: "\<not> py_bool_list mv"
      and st2: "st2 = (v, snd s @
             [GetMovies (title mi) (original_title mi) (year mi) (tmdb_id mi)])"
      by blast
    from unique [OF reached] searched by_title(3) have "s = st1" "mv = movies" "v = w"
      by simp_all
    with miss st2 run show ?lhs
      by (cases movies rule: py_bool_list.cases) (auto split: list.splits)
  qed
qed

subsection \<open>The loop of \<open>test\<close>\<close>







subsection \<open>The loop of \<open>webhook_parser\<close>\<close>

lemma webhook_loop_skip:
  "webhook_loop m pre body st = (None, st') \<Longrightarrow>
   webhook_loop m (pre @ rest) body st = webhook_loop m rest body st'"
  by (induction pre arbitrary: st) (auto split: prod.splits option.splits if_splits)

lemma webhook_loop_configs:
  "webhook_loop (m\<lparr>configs := c\<rparr>) confs body st = webhook_loop m confs body st"
  by (induction confs arbitrary: st) (auto simp: get_instance_def split: prod.splits option.splits)

lemma webhook_loop_Cons:
  "webhook_loop m (conf # confs) body st =
     (case webhook_loop m [conf] body st of
        (Some r, st') \<Rightarrow> (Some r, st')
      | (None, st') \<Rightarrow> webhook_loop m confs body st')"
  by (auto split: prod.splits option.splits)

lemma webhook_loop_single:
  "webhook_loop m [conf] body st = (Some e, st2) \<Longrightarrow>
   conf_type conf = ''plex'' \<and>
   (\<exists>server. get_instance m (Some (conf_name conf)) = Some server \<and>
      invoke (GetWebhookMessage body) (get_webhook_message server body) st = (Some e, st2))"
  by (auto split: if_splits prod.splits option.splits)

lemma webhook_loop_hit:
  "webhook_loop m confs body st = (Some e, st2) \<Longrightarrow>
   \<exists>pre conf post server st'.
     confs = pre @ conf # post \<and> conf_type conf = ''plex'' \<and>
     get_instance m (Some (conf_name conf)) = Some server \<and>
     webhook_loop m pre body st = (None, st') \<and>
     invoke (GetWebhookMessage body) (get_webhook_message server body) st' = (Some e, st2)"
proof (induction confs arbitrary: st)
  case Nil
  then show ?case by simp
next
  case (Cons conf confs)
  obtain a st1 where step: "webhook_loop m [conf] body st = (a, st1)"
    by (cases "webhook_loop m [conf] body st")
  show ?case
  proof (cases a)
    case (Some e')
    with Cons.prems step have "webhook_loop m [conf] body st = (Some e, st2)"
      by (simp del: webhook_loop.simps add: webhook_loop_Cons [of m conf confs])
    from webhook_loop_single [OF this] obtain server where
      "conf_type conf = ''plex''" "get_instance m (Some (conf_name conf)) = Some server"
      "invoke (GetWebhookMessage body) (get_webhook_message server body) st = (Some e, st2)"
      by blast
    moreover have "conf # confs = [] @ conf # confs" by simp
    moreover have "webhook_loop m [] body st = (None, st)" by simp
    ultimately show ?thesis by blast
  next
    case None
    with Cons.prems step have "webhook_loop m confs body st1 = (Some e, st2)"
      by (simp del: webhook_loop.simps add: webhook_loop_Cons [of m conf confs])
    from Cons.IH [OF this] obtain pre c post server st' where
      split: "confs = pre @ c # post" and plex: "conf_type c = ''plex''"
      and inst: "get_instance m (Some (conf_name c)) = Some server"
      and skipped: "webhook_loop m pre body st1 = (None, st')"
      and hit: "invoke (GetWebhookMessage body) (get_webhook_message server body) st' = (Some e, st2)"
      by blast
    from split have "conf # confs = (conf # pre) @ c # post" by simp
    moreover from step None skipped
    have "webhook_loop m (conf # pre) body st = (None, st')"
      by (simp del: webhook_loop.simps add: webhook_loop_Cons [of m conf pre])
    ultimately show ?thesis using plex inst hit by blast
  qed
qed

lemma webhook_loop_None:
  "(\<And>conf server w. conf \<in> set confs \<Longrightarrow> conf_type conf = ''plex'' \<Longrightarrow>
       get_instance m (Some (conf_name conf)) = Some server \<Longrightarrow>
       fst (get_webhook_message server body w) = None) \<Longrightarrow>
   fst (webhook_loop m confs body st) = None"
proof (induction confs arbitrary: st)
  case Nil
  show ?case by simp
next
  case (Cons conf confs)
  have rest: "fst (webhook_loop m confs body st') = None" for st'
  proof (rule Cons.IH)
    fix c server w
    assume "c \<in> set confs" "conf_type c = ''plex''"
      "get_instance m (Some (conf_name c)) = Some server"
    then show "fst (get_webhook_message server body w) = None"
      using Cons.prems [of c server w] by simp
  qed
  have here: "fst (get_webhook_message server body (fst st)) = None"
    if "conf_type conf = ''plex''" "get_instance m (Some (conf_name conf)) = Some server"
    for server
    using that Cons.prems [of conf server "fst st"] by simp
  show ?case
    using rest here by (auto simp: invoke_def split: prod.splits option.splits)
qed

lemma webhook_loop_filter:
  "webhook_loop m (filter (\<lambda>conf. conf_type conf = ''plex'') confs) body st =
   webhook_loop m confs body st"
  by (induction confs arbitrary: st) (auto split: prod.splits option.splits)

lemma map_snd_filter:
  "map snd (filter (\<lambda>(key, conf). P conf) xs) = filter P (map snd xs)"
  by (induction xs) auto

subsection \<open>The long texts of the examples\<close>

lemma long_text_lengths:
  "length deep_text = 100000" "length long_number = 5000"
  by (simp_all add: deep_text_def long_number_def)

lemma long_texts:
  "length s \<noteq> 100000 \<Longrightarrow> (s = deep_text) = False"
  "length s \<noteq> 100000 \<Longrightarrow> (deep_text = s) = False"
  "length s \<noteq> 5000 \<Longrightarrow> (s = long_number) = False"
  "length s \<noteq> 5000 \<Longrightarrow> (long_number = s) = False"
  using long_text_lengths by auto

subsection \<open>The loop of \<open>media_statistic\<close>\<close>

text \<open>
  The accumulator starts empty, and while it is empty the loop takes the \<open>continue\<close>
  branch: it never receives an element.
\<close>

lemma media_statistic_loop_stays_empty:
  "fst (media_statistic_loop servers [] st) = []"
  by (induction servers arbitrary: st) (simp_all split: prod.splits)

lemma media_statistic_without_name:
  "\<not> py_bool_str server \<Longrightarrow> fst (media_statistic m server st) = Some []"
  using media_statistic_loop_stays_empty [of "map snd (instances m)" st]
  by (auto simp: media_statistic_def split: prod.splits)

section \<open>Statistics\<close>

text \<open>
  C1. Without a server name, \<open>media_statistic\<close> is to return the count record of each
  instance whose count record is non-empty, in instance order. The code does not: in the
  registry \<open>A, B\<close>, where \<open>A\<close> counts 3 and \<open>B\<close> counts 5, both instances are asked
  and the result is the empty list. By \<open>media_statistic_without_name\<close> this is so in
  every registry.
\<close>

theorem media_statistic_drops_counts:
  "fst (get_medias_count server_A ([]::string list)) = Some 3 \<and>
   fst (get_medias_count server_B ([]::string list)) = Some 5 \<and>
   media_statistic demo_module None ([], []) =
     (Some [], ([], [GetMediasCount, GetMediasCount]))"
  by (simp add: demo_defs media_statistic_def invoke_def)

text \<open>
  C7, as stated: \<open>media_statistic\<close> with a server name that is not registered returns an
  empty sequence. It does not: for the name \<open>Z\<close> the result is \<open>None\<close>, no sequence.
\<close>

theorem media_statistic_unknown_server_counterexample:
  "''Z'' \<notin> fst ` set (instances demo_module) \<and>
   fst (media_statistic demo_module (Some ''Z'') ([], [])) \<noteq> Some []"
  by (simp add: demo_defs media_statistic_def get_instance_def)

text \<open>
  C7, amended: \<open>media_statistic\<close> with a non-empty server name that is not registered
  returns \<open>None\<close>, without an error and without any backend call (world and journal are
  unchanged); the empty name is read as no name at all (\<open>if server:\<close>).
\<close>

theorem media_statistic_unknown_server:
  assumes "server \<notin> fst ` set (instances m)"
  shows "media_statistic m (Some server) st =
           (if server = [] then media_statistic m None st else (None, st))"
  using get_instance_absent [OF assms] by (simp add: media_statistic_def)

theorem media_statistic_unknown_server_witness:
  "''Z'' \<notin> fst ` set (instances demo_module) \<and>
   media_statistic demo_module (Some ''Z'') ([], []) = (None, ([], []))"
proof -
  have absent: "''Z'' \<notin> fst ` set (instances demo_module)"
    by (simp add: demo_defs)
  from media_statistic_unknown_server [OF absent, of "([], [])"] absent
  show ?thesis by simp
qed

section \<open>Single-instance operations on an absent instance\<close>

text \<open>
  C9. Item info, TV episodes, the playing list, the latest list and the play URL, called
  with a server name that is not registered, return \<open>None\<close> or the empty list at once:
  the world and the journal of backend calls are unchanged, and there is no error.
\<close>

theorem absent_server_passthroughs:
  assumes "server \<notin> fst ` set (instances m)"
  shows "mediaserver_iteminfo m server itemid st = (None, st) \<and>
         mediaserver_tv_episodes m server itemid st = (None, st) \<and>
         mediaserver_playing m server count st = (Some [], st) \<and>
         mediaserver_latest m server count st = (Some [], st) \<and>
         mediaserver_play_url m server itemid st = (None, st)"
  using get_instance_absent [OF assms]
  by (simp add: mediaserver_iteminfo_def mediaserver_tv_episodes_def mediaserver_playing_def
      mediaserver_latest_def mediaserver_play_url_def)

theorem absent_server_passthroughs_witness:
  "''Z'' \<notin> fst ` set (instances demo_module) \<and>
   mediaserver_iteminfo demo_module ''Z'' ''b17'' ([], []) = (None, ([], [])) \<and>
   mediaserver_tv_episodes demo_module ''Z'' ''b17'' ([], []) = (None, ([], [])) \<and>
   mediaserver_playing demo_module ''Z'' 20 ([], []) = (Some [], ([], [])) \<and>
   mediaserver_latest demo_module ''Z'' 20 ([], []) = (Some [], ([], [])) \<and>
   mediaserver_play_url demo_module ''Z'' ''b17'' ([], []) = (None, ([], []))"
proof -
  have absent: "''Z'' \<notin> fst ` set (instances demo_module)"
    by (simp add: demo_defs)
  from absent_server_passthroughs [OF absent, of "''b17''" "([], [])" 20] absent
  show ?thesis by simp
qed

section \<open>Webhook routing\<close>

text \<open>
  C5. A source hint is explicit when \<open>args.get("source")\<close> is a non-empty string, which
  is what \<open>if source:\<close> tests. With an explicit hint that names no registered instance,
  \<open>webhook_parser\<close> returns \<open>None\<close> for every payload; world and journal are unchanged,
  so no instance was asked to decode, neither the named one nor any other.
\<close>

theorem webhook_parser_unknown_source:
  assumes "args ''source'' = Some source" and "source \<noteq> []"
    and "source \<notin> fst ` set (instances m)"
  shows "webhook_parser m body form args st = (None, st)"
  using assms(1,2) get_instance_absent [OF assms(3)]
  by (simp add: webhook_parser_def split: option.splits)

text \<open>In the example, instance \<open>B\<close> would have decoded the payload.\<close>

theorem webhook_parser_unknown_source_witness:
  "''Z'' \<notin> fst ` set (instances demo_module) \<and>
   fst (get_webhook_message server_B ''play'' []) = Some ''B:play'' \<and>
   webhook_parser demo_module ''play'' () [''source'' \<mapsto> ''Z''] ([], []) = (None, ([], []))"
proof -
  have absent: "''Z'' \<notin> fst ` set (instances demo_module)"
    by (simp add: demo_defs)
  have hint: "[''source'' \<mapsto> ''Z''] ''source'' = Some ''Z''" and nonempty: "''Z'' \<noteq> []"
    by simp_all
  from webhook_parser_unknown_source
         [of "[''source'' \<mapsto> ''Z'']" "''Z''" demo_module "''play''" "()" "([], [])",
          OF hint nonempty absent] absent
  show ?thesis by (simp add: demo_defs)
qed

text \<open>
  C6. Without a source hint (\<open>args.get("source")\<close> absent or empty) \<open>webhook_parser\<close>
  goes through the configurations in order. It returns the event \<open>e\<close> exactly when
  some configuration of type \<open>plex\<close> with a registered instance decodes the payload to
  \<open>e\<close> after the run over the configurations before it has ended without an event; the
  decoding call is the last entry of the journal. An instance that decodes nothing is no
  error: the run goes on. If no such instance decodes the payload, the result is \<open>None\<close>.
  Configurations of another type are never tried: dropping them changes neither the
  result nor the world nor the journal.
\<close>

theorem webhook_parser_fallback_order:
  assumes "\<not> py_bool_str (args ''source'')"
  shows
    "(webhook_parser m body form args st = (Some e, st2) \<longleftrightarrow>
        (\<exists>pre key conf post server st' w.
           configs m = pre @ (key, conf) # post \<and> conf_type conf = ''plex'' \<and>
           get_instance m (Some (conf_name conf)) = Some server \<and>
           webhook_parser (m\<lparr>configs := pre\<rparr>) body form args st = (None, st') \<and>
           get_webhook_message server body (fst st') = (Some e, w) \<and>
           st2 = (w, snd st' @ [GetWebhookMessage body]))) \<and>
     ((\<forall>(key, conf) \<in> set (configs m). conf_type conf = ''plex'' \<longrightarrow>
          (\<forall>server w. get_instance m (Some (conf_name conf)) = Some server \<longrightarrow>
             fst (get_webhook_message server body w) = None)) \<longrightarrow>
        fst (webhook_parser m body form args st) = None) \<and>
     webhook_parser m body form args st =
       webhook_parser
         (m\<lparr>configs := filter (\<lambda>(key, conf). conf_type conf = ''plex'') (configs m)\<rparr>)
         body form args st"
proof -
  have loop: "webhook_parser m' body form args s = webhook_loop m' (map snd (configs m')) body s"
    for m' :: "'a plex_module" and s
    using assms by (simp add: webhook_parser_def)
  have first: "webhook_parser m body form args st = (Some e, st2) \<longleftrightarrow>
        (\<exists>pre key conf post server st' w.
           configs m = pre @ (key, conf) # post \<and> conf_type conf = ''plex'' \<and>
           get_instance m (Some (conf_name conf)) = Some server \<and>
           webhook_parser (m\<lparr>configs := pre\<rparr>) body form args st = (None, st') \<and>
           get_webhook_message server body (fst st') = (Some e, w) \<and>
           st2 = (w, snd st' @ [GetWebhookMessage body]))"
  proof
    assume "webhook_parser m body form args st = (Some e, st2)"
    then have "webhook_loop m (map snd (configs m)) body st = (Some e, st2)"
      by (simp add: loop)
    from webhook_loop_hit [OF this] obtain cpre conf cpost server st' where
      split: "map snd (configs m) = cpre @ conf # cpost" and plex: "conf_type conf = ''plex''"
      and inst: "get_instance m (Some (conf_name conf)) = Some server"
      and skipped: "webhook_loop m cpre body st = (None, st')"
      and hit: "invoke (GetWebhookMessage body) (get_webhook_message server body) st' = (Some e, st2)"
      by blast
    from split obtain pre kc post where parts: "configs m = pre @ kc # post"
      and cpre: "cpre = map snd pre" and conf: "conf = snd kc"
      by (auto simp: map_eq_append_conv)
    obtain key where kc: "kc = (key, conf)" using conf by (cases kc) simp
    from skipped cpre have "webhook_parser (m\<lparr>configs := pre\<rparr>) body form args st = (None, st')"
      by (simp add: loop webhook_loop_configs)
    moreover from hit obtain w where "get_webhook_message server body (fst st') = (Some e, w)"
      "st2 = (w, snd st' @ [GetWebhookMessage body])"
      by (auto simp: invoke_eq)
    ultimately show "\<exists>pre key conf post server st' w.
           configs m = pre @ (key, conf) # post \<and> conf_type conf = ''plex'' \<and>
           get_instance m (Some (conf_name conf)) = Some server \<and>
           webhook_parser (m\<lparr>configs := pre\<rparr>) body form args st = (None, st') \<and>
           get_webhook_message server body (fst st') = (Some e, w) \<and>
           st2 = (w, snd st' @ [GetWebhookMessage body])"
      using parts kc plex inst by blast
  next
    assume "\<exists>pre key conf post server st' w.
           configs m = pre @ (key, conf) # post \<and> conf_type conf = ''plex'' \<and>
           get_instance m (Some (conf_name conf)) = Some server \<and>
           webhook_parser (m\<lparr>configs := pre\<rparr>) body form args st = (None, st') \<and>
           get_webhook_message server body (fst st') = (Some e, w) \<and>
           st2 = (w, snd st' @ [GetWebhookMessage body])"
    then obtain pre key conf post server st' w where
      parts: "configs m = pre @ (key, conf) # post" and plex: "conf_type conf = ''plex''"
      and inst: "get_instance m (Some (conf_name conf)) = Some server"
      and skipped: "webhook_parser (m\<lparr>configs := pre\<rparr>) body form args st = (None, st')"
      and hit: "get_webhook_message server body (fst st') = (Some e, w)"
      and st2: "st2 = (w, snd st' @ [GetWebhookMessage body])"
      by blast
    from skipped have "webhook_loop m (map snd pre) body st = (None, st')"
      by (simp add: loop webhook_loop_configs)
    from webhook_loop_skip [OF this, of "conf # map snd post"] parts
    have "webhook_parser m body form args st = webhook_loop m (conf # map snd post) body st'"
      by (simp add: loop)
    with plex inst hit st2 show "webhook_parser m body form args st = (Some e, st2)"
      by (simp add: invoke_def)
  qed
  have second: "(\<forall>(key, conf) \<in> set (configs m). conf_type conf = ''plex'' \<longrightarrow>
          (\<forall>server w. get_instance m (Some (conf_name conf)) = Some server \<longrightarrow>
             fst (get_webhook_message server body w) = None)) \<longrightarrow>
        fst (webhook_parser m body form args st) = None"
  proof
    assume all: "\<forall>(key, conf) \<in> set (configs m). conf_type conf = ''plex'' \<longrightarrow>
          (\<forall>server w. get_instance m (Some (conf_name conf)) = Some server \<longrightarrow>
             fst (get_webhook_message server body w) = None)"
    show "fst (webhook_parser m body form args st) = None"
      unfolding loop
    proof (rule webhook_loop_None)
      fix conf server w
      assume "conf \<in> set (map snd (configs m))" "conf_type conf = ''plex''"
        "get_instance m (Some (conf_name conf)) = Some server"
      with all show "fst (get_webhook_message server body w) = None"
        by fastforce
    qed
  qed
  have third: "webhook_parser m body form args st =
       webhook_parser
         (m\<lparr>configs := filter (\<lambda>(key, conf). conf_type conf = ''plex'') (configs m)\<rparr>)
         body form args st"
    by (simp add: loop webhook_loop_configs map_snd_filter webhook_loop_filter)
  from first second third show ?thesis by blast
qed

text \<open>In the example \<open>A\<close> decodes nothing and \<open>B\<close> decodes \<open>play\<close>; nobody decodes \<open>stop\<close>.\<close>

theorem webhook_parser_fallback_order_witness:
  "webhook_parser demo_module ''play'' () Map.empty ([], []) =
     (Some ''B:play'', ([], [GetWebhookMessage ''play'', GetWebhookMessage ''play''])) \<and>
   fst (webhook_parser demo_module ''stop'' () Map.empty ([], [])) = None"
proof -
  let ?conf_A = "\<lparr>conf_name = ''A'', conf_type = ''plex''\<rparr>"
  let ?conf_B = "\<lparr>conf_name = ''B'', conf_type = ''plex''\<rparr>"
  let ?asked = "GetWebhookMessage ''play''"
  have no_hint: "\<not> py_bool_str ((Map.empty :: string \<rightharpoonup> string) ''source'')"
    by simp
  note fallback = webhook_parser_fallback_order [OF no_hint]
  have split: "configs demo_module = [(''A'', ?conf_A)] @ (''B'', ?conf_B) # []"
    by (simp add: demo_defs)
  have plex: "conf_type ?conf_B = ''plex''"
    by simp
  have inst: "get_instance demo_module (Some (conf_name ?conf_B)) = Some server_B"
    by (simp add: demo_module_def get_instance_def)
  have declined: "webhook_parser (demo_module\<lparr>configs := [(''A'', ?conf_A)]\<rparr>)
      ''play'' () Map.empty ([], []) = (None, ([], [?asked]))"
    by (simp add: demo_defs webhook_parser_def get_instance_def invoke_def)
  have decoded: "get_webhook_message server_B ''play'' (fst (([]::string list), [?asked])) =
      (Some ''B:play'', [])"
    by (simp add: demo_defs)
  have journal: "(([]::string list), [?asked, ?asked]) = ([], snd (([]::string list), [?asked]) @ [?asked])"
    by simp
  have "\<exists>pre key conf post server st' w.
      configs demo_module = pre @ (key, conf) # post \<and> conf_type conf = ''plex'' \<and>
      get_instance demo_module (Some (conf_name conf)) = Some server \<and>
      webhook_parser (demo_module\<lparr>configs := pre\<rparr>) ''play'' () Map.empty ([], []) = (None, st') \<and>
      get_webhook_message server ''play'' (fst st') = (Some ''B:play'', w) \<and>
      (([]::string list), [?asked, ?asked]) = (w, snd st' @ [?asked])"
    using split plex inst declined decoded journal by (intro exI conjI)
  then have found: "webhook_parser demo_module ''play'' () Map.empty ([], []) =
     (Some ''B:play'', ([], [?asked, ?asked]))"
    by (simp only: fallback [THEN conjunct1])
  have nobody: "\<forall>(key, conf) \<in> set (configs demo_module). conf_type conf = ''plex'' \<longrightarrow>
      (\<forall>server w. get_instance demo_module (Some (conf_name conf)) = Some server \<longrightarrow>
         fst (get_webhook_message server ''stop'' w) = None)"
    by (simp add: demo_defs get_instance_def)
  have "fst (webhook_parser demo_module ''stop'' () Map.empty ([], [])) = None"
    by (rule fallback [THEN conjunct2, THEN conjunct1, THEN mp]) (rule nobody)
  with found show ?thesis by simp
qed

section \<open>Existence lookup\<close>

text \<open>
  C2. \<open>media_exists\<close> asks the instances in registry order and returns the answer of
  the earliest one whose backend reports a match. Whether a backend reports a match is
  read off its own answers: for a movie, \<open>get_iteminfo\<close> finds the item id supplied, or
  else \<open>get_movies\<close> returns a non-empty list; for a show, \<open>get_tv_episodes\<close> returns
  a non-empty season map. The result is \<open>r\<close> exactly when the registry splits into the
  instances before, one instance and the rest, such that the run over the instances
  before ends with no match and the backend of that one instance then reports the match
  \<open>r\<close>. The result is \<open>None\<close> exactly when the registry is empty, or the run over all
  instances but the last ends with no match and the backend of the last reports none
  either. In particular, if the backends of all instances report no match, whatever the
  state they are asked in, the result is \<open>None\<close>, an ordinary value.
\<close>

theorem media_exists_first_match:
  "(media_exists m mi itemid st = (Some r, st2) \<longleftrightarrow>
      (\<exists>pre name server post st'.
         instances m = pre @ (name, server) # post \<and>
         media_exists (m\<lparr>instances := pre\<rparr>) mi itemid st = (None, st') \<and>
         (mtype mi = MOVIE \<and>
            (\<exists>i movie w.
               itemid = Some i \<and> i \<noteq> [] \<and>
               get_iteminfo server i (fst st') = (Some movie, w) \<and>
               r = \<lparr>exist_type = MOVIE, exist_seasons = None, exist_server = name,
                     exist_itemid = item_id movie\<rparr> \<and>
               st2 = (w, snd st' @ [GetIteminfo i])) \<or>
          mtype mi = MOVIE \<and>
            (\<exists>st1 hit others w.
               (\<not> py_bool_str itemid \<and> st1 = st' \<or>
                (\<exists>j w1. itemid = Some j \<and> j \<noteq> [] \<and>
                   get_iteminfo server j (fst st') = (None, w1) \<and>
                   st1 = (w1, snd st' @ [GetIteminfo j]))) \<and>
               get_movies server (title mi) (original_title mi) (year mi) (tmdb_id mi)
                 (fst st1) = (Some (hit # others), w) \<and>
               r = \<lparr>exist_type = MOVIE, exist_seasons = None, exist_server = name,
                     exist_itemid = item_id hit\<rparr> \<and>
               st2 = (w, snd st1 @
                        [GetMovies (title mi) (original_title mi) (year mi) (tmdb_id mi)])) \<or>
          mtype mi \<noteq> MOVIE \<and>
            (\<exists>tv_id tvs w.
               get_tv_episodes server (Some (title mi)) (Some (original_title mi))
                 (Some (year mi)) (tmdb_id mi) itemid (fst st') = ((tv_id, tvs), w) \<and>
               py_bool_list tvs \<and>
               r = \<lparr>exist_type = TV, exist_seasons = tvs, exist_server = name,
                     exist_itemid = tv_id\<rparr> \<and>
               st2 = (w, snd st' @
                        [GetTvEpisodes (Some (title mi)) (Some (original_title mi))
                           (Some (year mi)) (tmdb_id mi) itemid]))))) \<and>
   (media_exists m mi itemid st = (None, st2) \<longleftrightarrow>
      (instances m = [] \<and> st2 = st \<or>
       (\<exists>pre name server st'.
          instances m = pre @ [(name, server)] \<and>
          media_exists (m\<lparr>instances := pre\<rparr>) mi itemid st = (None, st') \<and>
          (mtype mi = MOVIE \<and>
            (\<exists>st1 movies w.
               (\<not> py_bool_str itemid \<and> st1 = st' \<or>
                (\<exists>j w1. itemid = Some j \<and> j \<noteq> [] \<and>
                   get_iteminfo server j (fst st') = (None, w1) \<and>
                   st1 = (w1, snd st' @ [GetIteminfo j]))) \<and>
               get_movies server (title mi) (original_title mi) (year mi) (tmdb_id mi)
                 (fst st1) = (movies, w) \<and>
               \<not> py_bool_list movies \<and>
               st2 = (w, snd st1 @
                        [GetMovies (title mi) (original_title mi) (year mi) (tmdb_id mi)])) \<or>
          mtype mi \<noteq> MOVIE \<and>
            (\<exists>tv_id tvs w.
               get_tv_episodes server (Some (title mi)) (Some (original_title mi))
                 (Some (year mi)) (tmdb_id mi) itemid (fst st') = ((tv_id, tvs), w) \<and>
               \<not> py_bool_list tvs \<and>
               st2 = (w, snd st' @
                        [GetTvEpisodes (Some (title mi)) (Some (original_title mi))
                           (Some (year mi)) (tmdb_id mi) itemid])))))) \<and>
   ((\<forall>(name, server) \<in> set (instances m). \<forall>w.
       (mtype mi = MOVIE \<longrightarrow>
          (\<forall>i. itemid = Some i \<and> i \<noteq> [] \<longrightarrow> fst (get_iteminfo server i w) = None) \<and>
          \<not> py_bool_list
              (fst (get_movies server (title mi) (original_title mi) (year mi) (tmdb_id mi)
                 w))) \<and>
       (mtype mi \<noteq> MOVIE \<longrightarrow>
          \<not> py_bool_list
              (snd (fst (get_tv_episodes server (Some (title mi)) (Some (original_title mi))
                 (Some (year mi)) (tmdb_id mi) itemid w))))) \<longrightarrow>
      fst (media_exists m mi itemid st) = None)"
proof (intro conjI)
  show "media_exists m mi itemid st = (Some r, st2) \<longleftrightarrow>
      (\<exists>pre name server post st'.
         instances m = pre @ (name, server) # post \<and>
         media_exists (m\<lparr>instances := pre\<rparr>) mi itemid st = (None, st') \<and>
         (mtype mi = MOVIE \<and>
            (\<exists>i movie w.
               itemid = Some i \<and> i \<noteq> [] \<and>
               get_iteminfo server i (fst st') = (Some movie, w) \<and>
               r = \<lparr>exist_type = MOVIE, exist_seasons = None, exist_server = name,
                     exist_itemid = item_id movie\<rparr> \<and>
               st2 = (w, snd st' @ [GetIteminfo i])) \<or>
          mtype mi = MOVIE \<and>
            (\<exists>st1 hit others w.
               (\<not> py_bool_str itemid \<and> st1 = st' \<or>
                (\<exists>j w1. itemid = Some j \<and> j \<noteq> [] \<and>
                   get_iteminfo server j (fst st') = (None, w1) \<and>
                   st1 = (w1, snd st' @ [GetIteminfo j]))) \<and>
               get_movies server (title mi) (original_title mi) (year mi) (tmdb_id mi)
                 (fst st1) = (Some (hit # others), w) \<and>
               r = \<lparr>exist_type = MOVIE, exist_seasons = None, exist_server = name,
                     exist_itemid = item_id hit\<rparr> \<and>
               st2 = (w, snd st1 @
                        [GetMovies (title mi) (original_title mi) (year mi) (tmdb_id mi)])) \<or>
          mtype mi \<noteq> MOVIE \<and>
            (\<exists>tv_id tvs w.
               get_tv_episodes server (Some (title mi)) (Some (original_title mi))
                 (Some (year mi)) (tmdb_id mi) itemid (fst st') = ((tv_id, tvs), w) \<and>
               py_bool_list tvs \<and>
               r = \<lparr>exist_type = TV, exist_seasons = tvs, exist_server = name,
                     exist_itemid = tv_id\<rparr> \<and>
               st2 = (w, snd st' @
                        [GetTvEpisodes (Some (title mi)) (Some (original_title mi))
                           (Some (year mi)) (tmdb_id mi) itemid]))))"
    unfolding media_exists_def media_exists_loop_Some_iff media_exists_in_Some_iff
    by simp
  show "media_exists m mi itemid st = (None, st2) \<longleftrightarrow>
      (instances m = [] \<and> st2 = st \<or>
       (\<exists>pre name server st'.
          instances m = pre @ [(name, server)] \<and>
          media_exists (m\<lparr>instances := pre\<rparr>) mi itemid st = (None, st') \<and>
          (mtype mi = MOVIE \<and>
            (\<exists>st1 movies w.
               (\<not> py_bool_str itemid \<and> st1 = st' \<or>
                (\<exists>j w1. itemid = Some j \<and> j \<noteq> [] \<and>
                   get_iteminfo server j (fst st') = (None, w1) \<and>
                   st1 = (w1, snd st' @ [GetIteminfo j]))) \<and>
               get_movies server (title mi) (original_title mi) (year mi) (tmdb_id mi)
                 (fst st1) = (movies, w) \<and>
               \<not> py_bool_list movies \<and>
               st2 = (w, snd st1 @
                        [GetMovies (title mi) (original_title mi) (year mi) (tmdb_id mi)])) \<or>
          mtype mi \<noteq> MOVIE \<and>
            (\<exists>tv_id tvs w.
               get_tv_episodes server (Some (title mi)) (Some (original_title mi))
                 (Some (year mi)) (tmdb_id mi) itemid (fst st') = ((tv_id, tvs), w) \<and>
               \<not> py_bool_list tvs \<and>
               st2 = (w, snd st' @
                        [GetTvEpisodes (Some (title mi)) (Some (original_title mi))
                           (Some (year mi)) (tmdb_id mi) itemid])))))"
  proof (cases "instances m" rule: rev_cases)
    case Nil
    then show ?thesis by (auto simp: media_exists_def)
  next
    case (snoc pre x)
    obtain n s where x: "x = (n, s)" by (cases x)
    have "media_exists m mi itemid st = (None, st2) \<longleftrightarrow>
        (\<exists>st'. media_exists_loop pre mi itemid st = (None, st') \<and>
           media_exists_in n s mi itemid st' = (None, st2))"
      by (auto simp: media_exists_def snoc x media_exists_loop_snoc
          split: prod.splits option.splits)
    then show ?thesis
      unfolding media_exists_in_None_iff by (simp add: snoc x media_exists_def)
  qed
  show "(\<forall>(name, server) \<in> set (instances m). \<forall>w.
       (mtype mi = MOVIE \<longrightarrow>
          (\<forall>i. itemid = Some i \<and> i \<noteq> [] \<longrightarrow> fst (get_iteminfo server i w) = None) \<and>
          \<not> py_bool_list
              (fst (get_movies server (title mi) (original_title mi) (year mi) (tmdb_id mi)
                 w))) \<and>
       (mtype mi \<noteq> MOVIE \<longrightarrow>
          \<not> py_bool_list
              (snd (fst (get_tv_episodes server (Some (title mi)) (Some (original_title mi))
                 (Some (year mi)) (tmdb_id mi) itemid w))))) \<longrightarrow>
      fst (media_exists m mi itemid st) = None"
  proof
    assume negative: "(\<forall>(name, server) \<in> set (instances m). \<forall>w.
       (mtype mi = MOVIE \<longrightarrow>
          (\<forall>i. itemid = Some i \<and> i \<noteq> [] \<longrightarrow> fst (get_iteminfo server i w) = None) \<and>
          \<not> py_bool_list
              (fst (get_movies server (title mi) (original_title mi) (year mi) (tmdb_id mi)
                 w))) \<and>
       (mtype mi \<noteq> MOVIE \<longrightarrow>
          \<not> py_bool_list
              (snd (fst (get_tv_episodes server (Some (title mi)) (Some (original_title mi))
                 (Some (year mi)) (tmdb_id mi) itemid w)))))"
    show "fst (media_exists m mi itemid st) = None"
      unfolding media_exists_def
    proof (rule media_exists_loop_None)
      fix name server and w :: "'a st"
      assume member: "(name, server) \<in> set (instances m)"
      from bspec [OF negative member] have neg: "(mtype mi = MOVIE \<longrightarrow>
          (\<forall>i. itemid = Some i \<and> i \<noteq> [] \<longrightarrow> fst (get_iteminfo server i w0) = None) \<and>
          \<not> py_bool_list
              (fst (get_movies server (title mi) (original_title mi) (year mi) (tmdb_id mi)
                 w0))) \<and>
       (mtype mi \<noteq> MOVIE \<longrightarrow>
          \<not> py_bool_list
              (snd (fst (get_tv_episodes server (Some (title mi)) (Some (original_title mi))
                 (Some (year mi)) (tmdb_id mi) itemid w0))))" for w0
        by simp
      show "fst (media_exists_in name server mi itemid w) = None"
      proof (cases rule: media_exists_in_cases
          [where mi = mi and server = server and itemid = itemid and st = w])
        case (tv tv_id tvs v)
        with neg [of "fst w"] have "\<not> py_bool_list tvs" by simp
        with media_exists_in_tv [OF tv, of name] show ?thesis by simp
      next
        case (by_id i movie v)
        with neg [of "fst w"] have False by simp
        then show ?thesis ..
      next
        case (by_title st1 movies v)
        with neg [of "fst st1"] have "\<not> py_bool_list movies" by simp
        with media_exists_in_by_title [OF by_title, of name] show ?thesis
          by (cases movies rule: py_bool_list.cases) (auto split: list.splits)
      qed
    qed
  qed
qed

text \<open>
  In the registry of the spec's example \<open>A\<close> has no match and \<open>B\<close> holds "Nightfall" and
  the show "Orbit"; the film "Daybreak" is nowhere.
\<close>

theorem media_exists_first_match_witness:
  "media_exists demo_module nightfall None ([], []) =
     (Some \<lparr>exist_type = MOVIE, exist_seasons = None, exist_server = ''B'',
            exist_itemid = Some ''b17''\<rparr>,
      ([], [GetMovies ''Nightfall'' ''Nightfall'' ''2021'' (Some 555),
            GetMovies ''Nightfall'' ''Nightfall'' ''2021'' (Some 555)])) \<and>
   media_exists demo_module the_show None ([], []) =
     (Some \<lparr>exist_type = TV, exist_seasons = Some [(1, [1, 2]), (2, [1])],
            exist_server = ''B'', exist_itemid = Some ''B''\<rparr>,
      ([], [GetTvEpisodes (Some ''Orbit'') (Some ''Orbit'') (Some ''2020'') (Some 77) None,
            GetTvEpisodes (Some ''Orbit'') (Some ''Orbit'') (Some ''2020'') (Some 77) None])) \<and>
   fst (media_exists demo_module unknown_film None ([], [])) = None"
proof -
  let ?st0 = "(([]::string list), ([]::call list))"
  let ?only_A = "demo_module\<lparr>instances := [(''A'', server_A)]\<rparr>"
  let ?film = "GetMovies (title nightfall) (original_title nightfall) (year nightfall)
      (tmdb_id nightfall)"
  let ?show = "GetTvEpisodes (Some (title the_show)) (Some (original_title the_show))
      (Some (year the_show)) (tmdb_id the_show) None"
  let ?hit = "\<lparr>item_id = Some ''b17'', item_title = ''Nightfall''\<rparr>"
  let ?other = "\<lparr>item_id = Some ''b18'', item_title = ''Nightfall''\<rparr>"
  let ?found = "\<lparr>exist_type = MOVIE, exist_seasons = None, exist_server = ''B'',
      exist_itemid = item_id ?hit\<rparr>"
  let ?seasons = "Some [(1, [1, 2]), (2, [1])] :: seasons option"
  let ?series = "\<lparr>exist_type = TV, exist_seasons = ?seasons, exist_server = ''B'',
      exist_itemid = Some ''B''\<rparr>"
  note first_match = media_exists_first_match
  have kinds: "mtype nightfall = MOVIE" "mtype the_show \<noteq> MOVIE"
    by (simp_all add: nightfall_def the_show_def)
  have no_id: "\<not> py_bool_str None" by simp
  have base: "instances (?only_A\<lparr>instances := []\<rparr>) = []" by simp
  have nobody: "media_exists (?only_A\<lparr>instances := []\<rparr>) mi None ?st0 = (None, ?st0)" for mi
    using first_match [of "?only_A\<lparr>instances := []\<rparr>" mi None ?st0 _ ?st0, THEN conjunct2,
        THEN conjunct1] base
    by blast
  have only_A: "instances ?only_A = [] @ [(''A'', server_A)]" by simp
  have split: "instances demo_module = [(''A'', server_A)] @ (''B'', server_B) # []"
    by (simp add: demo_defs)
  have same: "demo_module\<lparr>instances := [(''A'', server_A)]\<rparr> = ?only_A" by simp

  have A_film: "get_movies server_A (title nightfall) (original_title nightfall)
      (year nightfall) (tmdb_id nightfall) (fst ?st0) = (Some [], [])"
    by (simp add: demo_defs)
  have A_film_miss: "\<not> py_bool_list (Some ([]::media_server_item list))" by simp
  have A_film_after: "(([]::string list), [?film]) = ([], snd ?st0 @ [?film])" by simp
  have declined_film: "media_exists ?only_A nightfall None ?st0 = (None, ([], [?film]))"
    using first_match [of ?only_A nightfall None ?st0 _ "([], [?film])", THEN conjunct2,
        THEN conjunct1]
      only_A nobody [of nightfall] kinds(1) no_id A_film A_film_miss A_film_after
    by blast
  have B_film: "get_movies server_B (title nightfall) (original_title nightfall)
      (year nightfall) (tmdb_id nightfall) (fst (([]::string list), [?film])) =
      (Some (?hit # [?other]), [])"
    by (simp add: demo_defs)
  have B_film_after: "(([]::string list), [?film, ?film]) =
      ([], snd (([]::string list), [?film]) @ [?film])"
    by simp
  have film: "media_exists demo_module nightfall None ?st0 = (Some ?found, ([], [?film, ?film]))"
    using first_match [of demo_module nightfall None ?st0 ?found "([], [?film, ?film])",
        THEN conjunct1]
      split declined_film kinds(1) no_id B_film B_film_after
    by blast

  have A_show: "get_tv_episodes server_A (Some (title the_show)) (Some (original_title the_show))
      (Some (year the_show)) (tmdb_id the_show) None (fst ?st0) = ((None, None), [])"
    by (simp add: demo_defs)
  have A_show_miss: "\<not> py_bool_list (None :: seasons option)" by simp
  have A_show_after: "(([]::string list), [?show]) = ([], snd ?st0 @ [?show])" by simp
  have declined_show: "media_exists ?only_A the_show None ?st0 = (None, ([], [?show]))"
    using first_match [of ?only_A the_show None ?st0 _ "([], [?show])", THEN conjunct2,
        THEN conjunct1]
      only_A nobody [of the_show] kinds(2) A_show A_show_miss A_show_after
    by blast
  have B_show: "get_tv_episodes server_B (Some (title the_show)) (Some (original_title the_show))
      (Some (year the_show)) (tmdb_id the_show) None (fst (([]::string list), [?show])) =
      ((Some ''B'', ?seasons), [])"
    by (simp add: demo_defs)
  have B_show_hit: "py_bool_list ?seasons" by simp
  have B_show_after: "(([]::string list), [?show, ?show]) =
      ([], snd (([]::string list), [?show]) @ [?show])"
    by simp
  have series: "media_exists demo_module the_show None ?st0 = (Some ?series, ([], [?show, ?show]))"
    using first_match [of demo_module the_show None ?st0 ?series "([], [?show, ?show])",
        THEN conjunct1]
      split declined_show kinds(2) B_show B_show_hit B_show_after
    by blast

  have nowhere: "\<forall>(name, server) \<in> set (instances demo_module). \<forall>w.
       (mtype unknown_film = MOVIE \<longrightarrow>
          (\<forall>i. None = Some i \<and> i \<noteq> [] \<longrightarrow> fst (get_iteminfo server i w) = None) \<and>
          \<not> py_bool_list
              (fst (get_movies server (title unknown_film) (original_title unknown_film)
                 (year unknown_film) (tmdb_id unknown_film) w))) \<and>
       (mtype unknown_film \<noteq> MOVIE \<longrightarrow>
          \<not> py_bool_list
              (snd (fst (get_tv_episodes server (Some (title unknown_film))
                 (Some (original_title unknown_film)) (Some (year unknown_film))
                 (tmdb_id unknown_film) None w))))"
    by (simp add: demo_defs unknown_film_def)
  have absent: "fst (media_exists demo_module unknown_film None ?st0) = None"
    by (rule first_match [THEN conjunct2, THEN conjunct2, THEN mp]) (rule nowhere)
  from film series absent show ?thesis
    by (simp add: nightfall_def the_show_def)
qed

text \<open>
  C3. For a movie, at the instance reached after the instances before it have reported
  no match: if an item id is supplied (a non-empty string) and the id lookup finds an
  item, \<open>media_exists\<close> returns this instance's name and that item's id, and the id
  lookup is the last backend call, so no title search was made. If no item id is
  supplied, or the id lookup finds nothing, and the search by title, original title,
  year and TMDB id returns a non-empty list, \<open>media_exists\<close> returns the id of the first
  hit and this instance's name, whatever the other hits are.
\<close>

theorem media_exists_movie_paths:
  assumes "mtype mi = MOVIE"
    and "instances m = pre @ (name, server) # post"
    and "media_exists (m\<lparr>instances := pre\<rparr>) mi itemid st = (None, st1)"
  shows
    "(itemid = Some i \<and> i \<noteq> [] \<and> get_iteminfo server i (fst st1) = (Some movie, w) \<longrightarrow>
        media_exists m mi itemid st =
          (Some \<lparr>exist_type = MOVIE, exist_seasons = None, exist_server = name,
                 exist_itemid = item_id movie\<rparr>,
           (w, snd st1 @ [GetIteminfo i]))) \<and>
     ((\<not> py_bool_str itemid \<and> st2 = st1 \<or>
       itemid = Some j \<and> j \<noteq> [] \<and> get_iteminfo server j (fst st1) = (None, w1) \<and>
         st2 = (w1, snd st1 @ [GetIteminfo j])) \<and>
      get_movies server (title mi) (original_title mi) (year mi) (tmdb_id mi) (fst st2) =
        (Some (hit # others), w2) \<longrightarrow>
        media_exists m mi itemid st =
          (Some \<lparr>exist_type = MOVIE, exist_seasons = None, exist_server = name,
                 exist_itemid = item_id hit\<rparr>,
           (w2, snd st2 @
                [GetMovies (title mi) (original_title mi) (year mi) (tmdb_id mi)])))"
proof -
  from assms(3) have skipped: "media_exists_loop pre mi itemid st = (None, st1)"
    by (simp add: media_exists_def)
  have run: "media_exists m mi itemid st =
      (case media_exists_in name server mi itemid st1 of
         (Some r, st') \<Rightarrow> (Some r, st')
       | (None, st') \<Rightarrow> media_exists_loop post mi itemid st')"
    using media_exists_loop_skip [OF skipped, of "(name, server) # post"] assms(2)
    by (simp add: media_exists_def)
  show ?thesis
    unfolding run using assms(1) by (auto simp: media_exists_in_def invoke_def)
qed

text \<open>
  In the example \<open>B\<close> holds two items called "Nightfall", \<open>b17\<close> and \<open>b18\<close>: with the
  item id \<open>b18\<close> the answer is \<open>b18\<close>, found by id; without an item id it is \<open>b17\<close>,
  the first hit of the title search.
\<close>

theorem media_exists_movie_paths_witness:
  "media_exists demo_module nightfall (Some ''b18'') ([], []) =
     (Some \<lparr>exist_type = MOVIE, exist_seasons = None, exist_server = ''B'',
            exist_itemid = Some ''b18''\<rparr>,
      ([], [GetIteminfo ''b18'', GetMovies ''Nightfall'' ''Nightfall'' ''2021'' (Some 555),
            GetIteminfo ''b18''])) \<and>
   media_exists demo_module nightfall None ([], []) =
     (Some \<lparr>exist_type = MOVIE, exist_seasons = None, exist_server = ''B'',
            exist_itemid = Some ''b17''\<rparr>,
      ([], [GetMovies ''Nightfall'' ''Nightfall'' ''2021'' (Some 555),
            GetMovies ''Nightfall'' ''Nightfall'' ''2021'' (Some 555)]))"
proof -
  let ?asked = "GetMovies ''Nightfall'' ''Nightfall'' ''2021'' (Some 555)"
  have movie: "mtype nightfall = MOVIE"
    by (simp add: nightfall_def)
  have split: "instances demo_module = [(''A'', server_A)] @ (''B'', server_B) # []"
    by (simp add: demo_defs)
  have declined_id:
    "media_exists (demo_module\<lparr>instances := [(''A'', server_A)]\<rparr>) nightfall (Some ''b18'')
       ([], []) = (None, ([], [GetIteminfo ''b18'', ?asked]))"
    by (simp add: demo_defs media_exists_def media_exists_in_def invoke_def)
  have declined:
    "media_exists (demo_module\<lparr>instances := [(''A'', server_A)]\<rparr>) nightfall None ([], []) =
       (None, ([], [?asked]))"
    by (simp add: demo_defs media_exists_def media_exists_in_def invoke_def)
  have by_id: "get_iteminfo server_B ''b18'' [] =
      (Some \<lparr>item_id = Some ''b18'', item_title = ''Nightfall''\<rparr>, [])"
    by (simp add: demo_defs)
  have by_title: "get_movies server_B ''Nightfall'' ''Nightfall'' ''2021'' (Some 555) [] =
      (Some (\<lparr>item_id = Some ''b17'', item_title = ''Nightfall''\<rparr> #
             [\<lparr>item_id = Some ''b18'', item_title = ''Nightfall''\<rparr>]), [])"
    by (simp add: demo_defs)
  have first: "media_exists demo_module nightfall (Some ''b18'') ([], []) =
     (Some \<lparr>exist_type = MOVIE, exist_seasons = None, exist_server = ''B'',
            exist_itemid = Some ''b18''\<rparr>,
      ([], [GetIteminfo ''b18'', ?asked, GetIteminfo ''b18'']))"
    using media_exists_movie_paths [OF movie split declined_id, THEN conjunct1,
            of "''b18''" "\<lparr>item_id = Some ''b18'', item_title = ''Nightfall''\<rparr>" "[]"]
      by_id
    by simp
  have second: "media_exists demo_module nightfall None ([], []) =
     (Some \<lparr>exist_type = MOVIE, exist_seasons = None, exist_server = ''B'',
            exist_itemid = Some ''b17''\<rparr>,
      ([], [?asked, ?asked]))"
    using media_exists_movie_paths [OF movie split declined, THEN conjunct2,
            of "([], [?asked])" _ _ "\<lparr>item_id = Some ''b17'', item_title = ''Nightfall''\<rparr>"
               "[\<lparr>item_id = Some ''b18'', item_title = ''Nightfall''\<rparr>]" "[]"]
      by_title
    by (simp add: nightfall_def)
  from first second show ?thesis by simp
qed

text \<open>
  C4. Whenever \<open>media_exists\<close> returns an \<open>ExistMediaInfo\<close>, its \<open>server\<close> field is the
  name of an instance of the registry the call ran on.
\<close>

theorem media_exists_server_registered:
  assumes "fst (media_exists m mi itemid st) = Some r"
  shows "exist_server r \<in> fst ` set (instances m)"
proof -
  from assms obtain st2 where "media_exists_loop (instances m) mi itemid st = (Some r, st2)"
    by (cases "media_exists_loop (instances m) mi itemid st") (simp add: media_exists_def)
  from media_exists_loop_hit [OF this] obtain pre name server post st' where
    split: "instances m = pre @ (name, server) # post"
    and hit: "media_exists_in name server mi itemid st' = (Some r, st2)"
    by blast
  from media_exists_in_server [OF hit] have "exist_server r = name" .
  moreover from split have "name \<in> fst ` set (instances m)" by force
  ultimately show ?thesis by simp
qed

theorem media_exists_server_registered_witness:
  "fst (media_exists demo_module nightfall None ([], [])) =
     Some \<lparr>exist_type = MOVIE, exist_seasons = None, exist_server = ''B'',
           exist_itemid = Some ''b17''\<rparr> \<and>
   ''B'' \<in> fst ` set (instances demo_module)"
proof -
  have found: "fst (media_exists demo_module nightfall None ([], [])) =
     Some \<lparr>exist_type = MOVIE, exist_seasons = None, exist_server = ''B'',
           exist_itemid = Some ''b17''\<rparr>"
    by (simp add: demo_defs media_exists_def media_exists_in_def invoke_def)
  from media_exists_server_registered [OF found] found show ?thesis by simp
qed

section \<open>Connectivity test\<close>



section \<open>The pre-validator of the user's JSON fields\<close>

text \<open>
  C10, as stated: validation of \<open>permissions\<close> or \<open>settings\<close> always yields a dict and
  never fails, and a string that is not valid JSON yields the empty dict. It does not:
  the integer 5 is truthy and not a string, so it is returned as it is; the text \<open>[1]\<close>
  parses to a list, which is returned as it is; on a hundred thousand opening brackets,
  which are not valid JSON, \<open>json.loads\<close> raises \<open>RecursionError\<close>, and on an integer
  literal of five thousand digits it raises \<open>ValueError\<close>; neither is caught.
\<close>

theorem parse_json_fields_counterexample:
  "parse_json_fields demo_json_loads (PyInt 5) = Inr (PyInt 5) \<and>
   parse_json_fields demo_json_loads (PyStr ''[1]'') = Inr (PyList [PyInt 1]) \<and>
   parse_json_fields demo_json_loads (PyStr deep_text) = Inl RecursionError \<and>
   parse_json_fields demo_json_loads (PyStr long_number) = Inl ValueError"
  by (simp add: parse_json_fields_def demo_json_loads_def long_texts long_text_lengths)

text \<open>
  C10, amended: \<open>parse_json_fields\<close> returns the empty dict for a falsy value, the
  parsed value for a non-empty string on which \<open>json.loads\<close> returns, the empty dict
  for a non-empty string on which \<open>json.loads\<close> raises \<open>JSONDecodeError\<close>, and any other
  truthy value unchanged. It fails only on a non-empty string on which \<open>json.loads\<close>
  raises another exception. Where it returns, its result is a dict exactly when the input
  is falsy, or is a string on which \<open>json.loads\<close> raises \<open>JSONDecodeError\<close> or returns a
  dict, or is a dict itself.
\<close>

theorem parse_json_fields_cases:
  "(\<not> py_bool v \<longrightarrow> parse_json_fields json_loads v = Inr (PyDict [])) \<and>
   (s \<noteq> [] \<and> json_loads s = Inr parsed \<longrightarrow>
      parse_json_fields json_loads (PyStr s) = Inr parsed) \<and>
   (s \<noteq> [] \<and> json_loads s = Inl JSONDecodeError \<longrightarrow>
      parse_json_fields json_loads (PyStr s) = Inr (PyDict [])) \<and>
   (py_bool v \<and> \<not> is_str v \<longrightarrow> parse_json_fields json_loads v = Inr v) \<and>
   (parse_json_fields json_loads v = Inl e \<longrightarrow>
      (\<exists>t. v = PyStr t \<and> t \<noteq> [] \<and> json_loads t = Inl e \<and> e \<noteq> JSONDecodeError)) \<and>
   (parse_json_fields json_loads v = Inr r \<longrightarrow>
      (is_dict r \<longleftrightarrow>
         \<not> py_bool v \<or>
         (case v of
            PyStr t \<Rightarrow> (case json_loads t of Inl x \<Rightarrow> True | Inr p \<Rightarrow> is_dict p)
          | _ \<Rightarrow> is_dict v)))"
proof -
  have falsy: "\<not> py_bool v \<longrightarrow> parse_json_fields json_loads v = Inr (PyDict [])"
    by (simp add: parse_json_fields_def)
  have parsed: "s \<noteq> [] \<and> json_loads s = Inr parsed \<longrightarrow>
      parse_json_fields json_loads (PyStr s) = Inr parsed"
    by (simp add: parse_json_fields_def)
  have rejected: "s \<noteq> [] \<and> json_loads s = Inl JSONDecodeError \<longrightarrow>
      parse_json_fields json_loads (PyStr s) = Inr (PyDict [])"
    by (simp add: parse_json_fields_def)
  have other: "py_bool v \<and> \<not> is_str v \<longrightarrow> parse_json_fields json_loads v = Inr v"
    by (cases v) (simp_all add: parse_json_fields_def)
  have fails: "parse_json_fields json_loads v = Inl e \<longrightarrow>
      (\<exists>t. v = PyStr t \<and> t \<noteq> [] \<and> json_loads t = Inl e \<and> e \<noteq> JSONDecodeError)"
    by (cases v)
      (auto simp: parse_json_fields_def split: if_splits sum.splits py_error.splits)
  have dict: "parse_json_fields json_loads v = Inr r \<longrightarrow>
      (is_dict r \<longleftrightarrow>
         \<not> py_bool v \<or>
         (case v of
            PyStr t \<Rightarrow> (case json_loads t of Inl x \<Rightarrow> True | Inr p \<Rightarrow> is_dict p)
          | _ \<Rightarrow> is_dict v))"
    by (cases v)
      (auto simp: parse_json_fields_def split: if_splits sum.splits py_error.splits)
  from falsy parsed rejected other fails dict show ?thesis by blast
qed

theorem parse_json_fields_cases_witness:
  "parse_json_fields demo_json_loads PyNone = Inr (PyDict []) \<and>
   parse_json_fields demo_json_loads (PyStr ''{}'') = Inr (PyDict []) \<and>
   parse_json_fields demo_json_loads (PyStr ''1.5'') = Inr (PyFloat (Finite 3 (- 1))) \<and>
   parse_json_fields demo_json_loads (PyStr ''{'') = Inr (PyDict []) \<and>
   parse_json_fields demo_json_loads (PyInt 5) = Inr (PyInt 5) \<and>
   demo_json_loads deep_text = Inl RecursionError \<and>
   \<not> is_dict (PyInt 5)"
proof -
  note cases = parse_json_fields_cases [of _ demo_json_loads]
  have "\<not> py_bool PyNone" by simp
  with cases [of PyNone] have falsy: "parse_json_fields demo_json_loads PyNone = Inr (PyDict [])"
    by blast
  have "''{}'' \<noteq> [] \<and> demo_json_loads ''{}'' = Inr (PyDict [])"
    by (simp add: demo_json_loads_def long_texts long_text_lengths)
  with cases [of _ "''{}''" "PyDict []"]
  have object: "parse_json_fields demo_json_loads (PyStr ''{}'') = Inr (PyDict [])"
    by blast
  have "''1.5'' \<noteq> [] \<and> demo_json_loads ''1.5'' = Inr (PyFloat (Finite 3 (- 1)))"
    by (simp add: demo_json_loads_def long_texts long_text_lengths)
  with cases [of _ "''1.5''" "PyFloat (Finite 3 (- 1))"]
  have float: "parse_json_fields demo_json_loads (PyStr ''1.5'') = Inr (PyFloat (Finite 3 (- 1)))"
    by blast
  have "''{'' \<noteq> [] \<and> demo_json_loads ''{'' = Inl JSONDecodeError"
    by (simp add: demo_json_loads_def long_texts long_text_lengths)
  with cases [of _ "''{''"]
  have broken: "parse_json_fields demo_json_loads (PyStr ''{'') = Inr (PyDict [])"
    by blast
  have "py_bool (PyInt 5) \<and> \<not> is_str (PyInt 5)" by simp
  with cases [of "PyInt 5"]
  have number: "parse_json_fields demo_json_loads (PyInt 5) = Inr (PyInt 5)"
    by blast
  have raised: "parse_json_fields demo_json_loads (PyStr deep_text) = Inl RecursionError"
    by (simp add: parse_json_fields_def demo_json_loads_def long_texts long_text_lengths)
  with cases [of "PyStr deep_text" _ _ RecursionError]
  have cause: "demo_json_loads deep_text = Inl RecursionError"
    by blast
  from number cases [of "PyInt 5" _ _ _ "PyInt 5"] have "\<not> is_dict (PyInt 5)"
    by simp
  with falsy object float broken number cause show ?thesis by simp
qed

end
